theory Spec2Isabelle
  imports Complex_Main "HOL-Library.Word"
begin

section \<open>Values of the host language\<close>

text \<open>
  A JavaScript string is a sequence of 16-bit code units; a \<open>Uint8Array\<close> is a sequence
  of bytes. String literals of \<open>index.ts\<close> are all ASCII and are written \<open>js ''...''\<close>.
\<close>

type_synonym code_unit = "16 word"
type_synonym js_string = "code_unit list"
type_synonym byte = "8 word"
type_synonym bytes = "byte list"

definition js :: "string \<Rightarrow> js_string" where
  "js cs = map (\<lambda>c. of_nat (of_char c)) cs"

text \<open>
  A thrown value is either an instance of \<open>Error\<close> (with its \<open>message\<close>) or anything
  else; \<open>e instanceof Error\<close> tells them apart.
\<close>

datatype thrown = ErrorObj js_string | OtherValue js_string

fun instanceof_Error :: "thrown \<Rightarrow> bool" where
  "instanceof_Error (ErrorObj m) = True"
| "instanceof_Error (OtherValue v) = False"

fun message :: "thrown \<Rightarrow> js_string" where
  "message (ErrorObj m) = m"
| "message (OtherValue v) = []"

subsection \<open>\<open>TextEncoder.encode\<close>\<close>

text \<open>
  \<open>encoder.encode(cmd)\<close> is the platform's UTF-8 encoder (WHATWG Encoding): the code units
  are first read as Unicode scalar values, a surrogate pair giving one supplementary code
  point and an unpaired surrogate giving U+FFFD, and each scalar value is then written in
  one to four bytes.
\<close>

definition is_lead :: "nat \<Rightarrow> bool" where
  "is_lead u = (0xD800 \<le> u \<and> u < 0xDC00)"

definition is_trail :: "nat \<Rightarrow> bool" where
  "is_trail u = (0xDC00 \<le> u \<and> u < 0xE000)"

fun scalar_values :: "nat list \<Rightarrow> nat list" where
  "scalar_values [] = []"
| "scalar_values [u] = [if is_lead u \<or> is_trail u then 0xFFFD else u]"
| "scalar_values (u # v # us) =
     (if is_lead u then
        (if is_trail v
         then (0x10000 + (u - 0xD800) * 0x400 + (v - 0xDC00)) # scalar_values us
         else 0xFFFD # scalar_values (v # us))
      else if is_trail u then 0xFFFD # scalar_values (v # us)
      else u # scalar_values (v # us))"

definition utf8_of_scalar :: "nat \<Rightarrow> bytes" where
  "utf8_of_scalar c =
     (if c < 0x80 then [of_nat c]
      else if c < 0x800 then [of_nat (0xC0 + c div 0x40), of_nat (0x80 + c mod 0x40)]
      else if c < 0x10000 then
        [of_nat (0xE0 + c div 0x1000), of_nat (0x80 + (c div 0x40) mod 0x40),
         of_nat (0x80 + c mod 0x40)]
      else
        [of_nat (0xF0 + c div 0x40000), of_nat (0x80 + (c div 0x1000) mod 0x40),
         of_nat (0x80 + (c div 0x40) mod 0x40), of_nat (0x80 + c mod 0x40)])"

definition encode :: "js_string \<Rightarrow> bytes" where
  "encode s = concat (map utf8_of_scalar (scalar_values (map unat s)))"

subsection \<open>Typed arrays\<close>

text \<open>
  \<open>new Uint8Array(n)\<close> is \<open>n\<close> zero bytes. An indexed store outside the array is
  ignored; \<open>target.set(source, offset)\<close> throws a \<open>RangeError\<close> when the source does not
  fit behind the offset, and copies it there otherwise.
\<close>

definition new_Uint8Array :: "nat \<Rightarrow> bytes" where
  "new_Uint8Array n = replicate n 0"

definition store :: "bytes \<Rightarrow> nat \<Rightarrow> byte \<Rightarrow> bytes" where
  "store a i b = (if i < length a then a[i := b] else a)"

definition set_from :: "bytes \<Rightarrow> bytes \<Rightarrow> nat \<Rightarrow> thrown + bytes" where
  "set_from target source offset =
     (if length target < offset + length source
      then Inl (ErrorObj (js ''offset is out of bounds''))
      else Inr (take offset target @ source @ drop (offset + length source) target))"

section \<open>The frame codec\<close>

text \<open>
  \<^verbatim>\<open>
  function toXK852Cmd(cmd: string): Uint8Array {
    const m = encoder.encode(cmd);
    const msg = new Uint8Array(m.length + 2);
    msg[0] = 10; // begin of message : LF
    msg.set(m, 1);
    msg[m.length + 1] = 13; // begin of message : CR
    return msg;
  }
  \<close>
\<close>

definition toXK852Cmd :: "js_string \<Rightarrow> thrown + bytes" where
  "toXK852Cmd cmd =
     (let m = encode cmd;
          msg = new_Uint8Array (length m + 2);
          msg = store msg 0 10
      in case set_from msg m 1 of
           Inl e \<Rightarrow> Inl e
         | Inr msg \<Rightarrow> Inr (store msg (length m + 1) 13))"

section \<open>Numbers and their decimal strings\<close>

text \<open>
  The numbers of \<open>setFrequency\<close> are doubles in the source. The model computes with
  exact rationals: \<open>e.value/10\<close> is the quotient, \<open>Math.round\<close> gives the nearest integer
  and, of two equally near, the greater one, and \<open>String(f)\<close> of an integer is its decimal
  representation, with a minus sign below zero. This is the computation of the source for
  the whole-number values below \<open>2^53\<close>, and for these only. Such a value is a double; the
  double nearest to its tenth is less than \<open>2^-4\<close> away from the tenth (doubles below
  \<open>2^50\<close> are at most \<open>2^-3\<close> apart) and is the tenth itself when that is a half-integer,
  so that \<open>Math.round\<close> gives the same integer for both (lemma \<open>Math_round_robust\<close>
  below); and that integer, below \<open>10^15\<close>, is written by \<open>String\<close> in plain digits. For
  fractions and for values from \<open>2^53\<close> on the doubles may round another way, and from
  \<open>10^21\<close> on \<open>String\<close> writes an exponent: there the model is not the source, and the
  theorems on \<open>setFrequency\<close> are stated for the values below \<open>2^53\<close> only.
  \<open>portCounter\<close> is a natural number.
\<close>

definition Math_round :: "rat \<Rightarrow> int" where
  "Math_round x = \<lfloor>x + 1 / 2\<rfloor>"

definition digit :: "nat \<Rightarrow> code_unit" where
  "digit d = of_nat (48 + d)"

fun digits :: "nat \<Rightarrow> js_string" where
  "digits n = (if n < 10 then [digit n] else digits (n div 10) @ [digit (n mod 10)])"

declare digits.simps [simp del]

definition String_of :: "int \<Rightarrow> js_string" where
  "String_of f = (if f < 0 then js ''-'' @ digits (nat (- f)) else digits (nat f))"

text \<open>
  \<open>s.padStart(n, fill)\<close>: a string of at least \<open>n\<close> code units, or an empty filler,
  leaves \<open>s\<close> as it is; otherwise the filler is repeated, cut to the missing length and
  put in front.
\<close>

definition padStart :: "nat \<Rightarrow> js_string \<Rightarrow> js_string \<Rightarrow> js_string" where
  "padStart n fill s =
     (if n \<le> length s \<or> fill = [] then s
      else take (n - length s) (concat (replicate (n - length s) fill)) @ s)"

section \<open>The state of the page\<close>

text \<open>
  A \<open>SerialPort\<close> object and an \<open>option\<close> element are references, compared by
  identity. An element of the dropdown has its text, its \<open>value\<close> attribute when it has
  one (the value is the text otherwise), the \<open>port\<close> property that \<open>PortOption\<close> adds
  (undefined on any other option) and its selectedness.
\<close>

type_synonym handle = nat
type_synonym ref = nat

record port_option =
  ident :: ref
  textContent :: js_string
  value_attr :: "js_string option"
  option_port :: "handle option"
  selected :: bool

definition option_value :: "port_option \<Rightarrow> js_string" where
  "option_value opt = (case value_attr opt of Some v \<Rightarrow> v | None \<Rightarrow> textContent opt)"

text \<open>
  Calls into the host and writes to the log view are recorded in order, each with the
  value the module-level \<open>port\<close> has at that moment.
\<close>

datatype effect =
    ConsoleLog
  | ConsoleError thrown
  | ConsoleWarn js_string
  | DumpSerialOut js_string
  | RequestPort
  | Open handle
  | Close handle
  | GetReader handle
  | ReleaseLock handle
  | Cancel handle
  | GetWriter handle
  | Write handle bytes
  | WriterReleaseLock handle

text \<open>
  The module-level variables \<open>port\<close>, \<open>reader\<close> and \<open>portCounter\<close>; the dropdown, the
  connect button and the text of the element \<open>serialOut\<close> (\<open>None\<close> when the document
  has no such element); and, of the host, whether \<open>readable\<close> and \<open>writable\<close> of a port
  are streams rather than \<open>null\<close>.
\<close>

record state =
  port :: "handle option"
  reader :: "handle option"
  portCounter :: nat
  options :: "port_option list"
  next_ref :: ref
  portSelector_disabled :: bool
  connectButton_textContent :: js_string
  connectButton_disabled :: bool
  serialOut :: "js_string option"
  readable :: "handle \<Rightarrow> bool"
  writable :: "handle \<Rightarrow> bool"
  trace :: "(effect \<times> handle option) list"

text \<open>
  An \<open>async\<close> function ends fulfilled, rejected with the value thrown, or is left
  waiting for a promise that nothing will settle. Synchronous functions share the type
  and never are \<open>Pending\<close>.
\<close>

datatype outcome = Returned | Threw thrown | Pending

definition emit :: "effect \<Rightarrow> state \<Rightarrow> state" where
  "emit e s = s\<lparr>trace := trace s @ [(e, port s)]\<rparr>"

section \<open>Sending\<close>

text \<open>
  \<^verbatim>\<open>
  function sendSerial(data: Uint8Array) {
    if (port?.writable == null) {
      console.warn(`unable to find writable port`);
      return;
    }
    const writer = port.writable.getWriter();
    writer.write(data);
    writer.releaseLock();
  }
  \<close>
  The writer is released in the same turn it is taken in, so the stream is never found
  locked; the promise of \<open>write\<close> is not awaited.
\<close>

definition sendSerial :: "bytes \<Rightarrow> state \<Rightarrow> outcome \<times> state" where
  "sendSerial data s =
     (case port s of
        None \<Rightarrow> (Returned, emit (ConsoleWarn (js ''unable to find writable port'')) s)
      | Some p \<Rightarrow>
          if \<not> writable s p
          then (Returned, emit (ConsoleWarn (js ''unable to find writable port'')) s)
          else (Returned, emit (WriterReleaseLock p) (emit (Write p data) (emit (GetWriter p) s))))"

text \<open>
  \<^verbatim>\<open>
  function setFrequency(event: any ) {
    const e = event.currentTarget;
    if (e) {
      const f = Math.round(e.value/10); // TODO: check limits
      const fstring = String(f).padStart(7, `0000000` );
      const cmd = `*F${fstring}`;
      sendSerial(toXK852Cmd(cmd));
    }
  }
  \<close>
  The argument is the \<open>value\<close> of \<open>event.currentTarget\<close>, or \<open>None\<close> when the event has
  no current target. \<open>setFrequency_cmd\<close> is the local \<open>cmd\<close>.
\<close>

definition setFrequency_cmd :: "rat \<Rightarrow> js_string" where
  "setFrequency_cmd v =
     (let f = Math_round (v / 10);
          fstring = padStart 7 (js ''0000000'') (String_of f)
      in js ''*F'' @ fstring)"

definition setFrequency :: "rat option \<Rightarrow> state \<Rightarrow> outcome \<times> state" where
  "setFrequency e s =
     (case e of
        None \<Rightarrow> (Returned, s)
      | Some v \<Rightarrow>
          (case toXK852Cmd (setFrequency_cmd v) of
             Inl x \<Rightarrow> (Threw x, s)
           | Inr data \<Rightarrow> sendSerial data s))"

section \<open>The log view\<close>

text \<open>
  \<^verbatim>\<open>
  function dumpSerialOut(msg: string, callback?: () => void): void {
    const element=document.getElementById('serialOut');
    if (element) element.innerText += msg;
    if (callback) callback();
  }
  \<close>
  The callback, where one is given, is the \<open>resolve\<close> of the promise the caller awaits:
  it runs before \<open>dumpSerialOut\<close> returns, so the caller goes on.
\<close>

definition dumpSerialOut :: "js_string \<Rightarrow> state \<Rightarrow> state" where
  "dumpSerialOut msg s =
     emit (DumpSerialOut msg) (s\<lparr>serialOut := map_option (\<lambda>t. t @ msg) (serialOut s)\<rparr>)"

text \<open>
  \<^verbatim>\<open>
  function markDisconnected(): void {
    dumpSerialOut('<DISCONNECTED>\n');
    portSelector.disabled = false;
    connectButton.textContent = 'Connect';
    connectButton.disabled = false;
    port = undefined;
  }
  \<close>
\<close>

definition markDisconnected :: "state \<Rightarrow> state" where
  "markDisconnected s =
     (dumpSerialOut (js (''<DISCONNECTED>'' @ [CHR 0x0A])) s)
       \<lparr>portSelector_disabled := False,
        connectButton_textContent := js ''Connect'',
        connectButton_disabled := False,
        port := None\<rparr>"

section \<open>The port registry\<close>

text \<open>
  \<^verbatim>\<open>
  function findPortOption(port: SerialPort | SerialPortPolyfill):
      PortOption | null {
    for (let i = 0; i < portSelector.options.length; ++i) {
      const option = portSelector.options[i];
      if (option.value === 'prompt') {
        continue;
      }
      const portOption = option as PortOption;
      if (portOption.port === port) {
        return portOption;
      }
    }
    return null;
  }
  \<close>
  The result is the reference of the element found.
\<close>

primrec find_in :: "handle \<Rightarrow> port_option list \<Rightarrow> ref option" where
  "find_in p [] = None"
| "find_in p (opt # rest) =
     (if option_value opt = js ''prompt'' then find_in p rest
      else if option_port opt = Some p then Some (ident opt)
      else find_in p rest)"

definition findPortOption :: "handle \<Rightarrow> state \<Rightarrow> ref option" where
  "findPortOption p s = find_in p (options s)"

text \<open>
  \<^verbatim>\<open>
  function addNewPort(port: SerialPort | SerialPortPolyfill): PortOption {
    const portOption = document.createElement('option') as PortOption;
    portOption.textContent = `Port ${portCounter++}`;
    portOption.port = port;
    portSelector.appendChild(portOption);
    return portOption;
  }
  \<close>
  \<open>createElement\<close> gives a reference not used before.
\<close>

definition addNewPort :: "handle \<Rightarrow> state \<Rightarrow> ref \<times> state" where
  "addNewPort p s =
     (let portOption = \<lparr>ident = next_ref s,
                         textContent = js ''Port '' @ digits (portCounter s),
                         value_attr = None,
                         option_port = Some p,
                         selected = False\<rparr>
      in (next_ref s,
          s\<lparr>next_ref := next_ref s + 1,
            portCounter := portCounter s + 1,
            options := options s @ [portOption]\<rparr>))"

text \<open>
  \<^verbatim>\<open>
  function maybeAddNewPort(port: SerialPort | SerialPortPolyfill): PortOption {
    const portOption = findPortOption(port);
    if (portOption) {
      return portOption;
    }
    return addNewPort(port);
  }
  \<close>
\<close>

definition maybeAddNewPort :: "handle \<Rightarrow> state \<Rightarrow> ref \<times> state" where
  "maybeAddNewPort p s =
     (case findPortOption p s of
        Some portOption \<Rightarrow> (portOption, s)
      | None \<Rightarrow> addNewPort p s)"

text \<open>
  The dropdown: \<open>portSelector.value\<close> is the value of the first selected option and the
  empty string when none is selected; \<open>portOption.selected = true\<close> selects that element
  and no other; \<open>portOption.remove()\<close> takes the element out of the list, and when that
  leaves no entry selected the browser selects the first one (\<open>reselect\<close>). An entry
  that is appended is not selected, and appending changes no selection in a dropdown
  that has an entry selected.
\<close>

definition selectedOptions :: "state \<Rightarrow> port_option list" where
  "selectedOptions s = filter selected (options s)"

definition portSelector_value :: "state \<Rightarrow> js_string" where
  "portSelector_value s = (case selectedOptions s of [] \<Rightarrow> [] | opt # _ \<Rightarrow> option_value opt)"

definition set_selected :: "ref \<Rightarrow> state \<Rightarrow> state" where
  "set_selected r s = s\<lparr>options := map (\<lambda>opt. opt\<lparr>selected := (ident opt = r)\<rparr>) (options s)\<rparr>"

primrec delete_option :: "ref \<Rightarrow> port_option list \<Rightarrow> port_option list" where
  "delete_option r [] = []"
| "delete_option r (opt # rest) = (if ident opt = r then rest else opt # delete_option r rest)"

definition reselect :: "port_option list \<Rightarrow> port_option list" where
  "reselect opts =
     (if list_ex selected opts then opts
      else case opts of [] \<Rightarrow> [] | opt # rest \<Rightarrow> opt\<lparr>selected := True\<rparr> # rest)"

definition remove_option :: "ref \<Rightarrow> port_option list \<Rightarrow> port_option list" where
  "remove_option r opts = reselect (delete_option r opts)"

text \<open>
  The handles the dropdown refers to, in order; \<open>registry_ok\<close> says that no handle is
  referred to twice and that an entry with the value \<open>prompt\<close> refers to none.
\<close>

definition port_refs :: "port_option list \<Rightarrow> handle list" where
  "port_refs opts = List.map_filter option_port opts"

definition prompt_free :: "port_option list \<Rightarrow> bool" where
  "prompt_free opts =
     list_all (\<lambda>opt. option_port opt = None \<or> option_value opt \<noteq> js ''prompt'') opts"

definition registry_ok :: "state \<Rightarrow> bool" where
  "registry_ok s = (distinct (port_refs (options s)) \<and> prompt_free (options s))"

section \<open>Connecting\<close>

text \<open>
  What the host answers is an argument of the model: the outcome of \<open>requestPort\<close>, of
  \<open>open\<close> and of \<open>close\<close> (\<open>None\<close> when the promise is fulfilled, the value thrown
  otherwise), and for each pass of the \<open>while\<close> loop of \<open>connectToPort\<close> either that
  \<open>getReader\<close> throws or the results of the reads, in order. A read result is the pair
  \<open>{value, done}\<close>, the chunk given as the text \<open>TextDecoder.decode\<close> makes of it, or the
  value the read rejects with. Each pass also tells whether \<open>port.readable\<close> is a stream
  when the loop tests it next. Where the results end, the read that follows stays
  pending.
\<close>

datatype read_event = ReadResult "js_string option" bool | ReadThrows thrown

datatype session = GetReaderThrows thrown bool | Reads "read_event list" bool

record host =
  requestPort_result :: "thrown + handle"
  open_result :: "thrown option"
  sessions :: "session list"
  close_result :: "thrown option"

text \<open>
  \<^verbatim>\<open>
  async function getSelectedPort(): Promise<void> {
    if (portSelector.value == 'prompt') {
      try {
        const serial = usePolyfill ? polyfill : navigator.serial;
        port = await serial.requestPort({});
      } catch (e) {
        return;
      }
      const portOption = maybeAddNewPort(port);
      portOption.selected = true;
    } else {
      const selectedOption = portSelector.selectedOptions[0] as PortOption;
      port = selectedOption.port;
    }
  }
  \<close>
  With no option selected, \<open>selectedOptions[0]\<close> is undefined and reading its \<open>port\<close>
  throws a \<open>TypeError\<close>.
\<close>

definition getSelectedPort :: "thrown + handle \<Rightarrow> state \<Rightarrow> outcome \<times> state" where
  "getSelectedPort req s =
     (if portSelector_value s = js ''prompt'' then
        (case req of
           Inl e \<Rightarrow> (Returned, emit RequestPort s)
         | Inr p \<Rightarrow>
             (let s1 = (emit RequestPort s)\<lparr>port := Some p\<rparr>;
                  (portOption, s2) = maybeAddNewPort p s1
              in (Returned, set_selected portOption s2)))
      else
        (case selectedOptions s of
           [] \<Rightarrow> (Threw (ErrorObj (js ''Cannot read properties of undefined'')), s)
         | selectedOption # _ \<Rightarrow> (Returned, s\<lparr>port := option_port selectedOption\<rparr>)))"

text \<open>
  The body of the \<open>try\<close> of the read loop, after \<open>getReader\<close>:
  \<^verbatim>\<open>
      for (;;) {
        const {value, done} = await (async () => {
          if (!buffer) {
            buffer = new ArrayBuffer(bufferSize);
          }
          const {value, done} =
            await reader.read(new Uint8Array(buffer, 0, bufferSize));
          buffer = value?.buffer;
          return {value, done};
        })();

        if (value) {
          await new Promise<void>((resolve) => {
            const msg = new TextDecoder().decode(value);
            dumpSerialOut(msg, resolve);
          });
        }
        if (done) {
          break;
        }
      }
  \<close>
  It ends by the \<open>break\<close>, by a value thrown, or not at all, waiting for a read. The
  buffer handed to \<open>read\<close> has no part in what is observed. \<open>dump_chunk\<close> is the
  statement \<open>if (value) { ... }\<close>: a chunk, even an empty one, is logged.
\<close>

datatype try_end = Broke | Caught thrown | Waiting

definition dump_chunk :: "js_string option \<Rightarrow> state \<Rightarrow> state" where
  "dump_chunk v s = (case v of Some msg \<Rightarrow> dumpSerialOut msg s | None \<Rightarrow> s)"

fun inner_loop :: "read_event list \<Rightarrow> state \<Rightarrow> try_end \<times> state" where
  "inner_loop [] s = (Waiting, s)"
| "inner_loop (ReadThrows e # evs) s = (Caught e, s)"
| "inner_loop (ReadResult v d # evs) s =
     (let s1 = dump_chunk v s
      in if d then (Broke, s1) else inner_loop evs s1)"

text \<open>
  \<^verbatim>\<open>
    } catch (e) {
      console.error(e);
      await new Promise<void>((resolve) => {
        if (e instanceof Error) {
          dumpSerialOut(`<ERROR: ${e.message}>\n`, resolve);
        }
      });
    } finally {
      if (reader) {
        reader.releaseLock();
        reader = undefined;
      }
    }
  \<close>
  The promise of the \<open>catch\<close> is resolved by \<open>dumpSerialOut\<close> only. The result tells
  whether control comes back to the test of the \<open>while\<close>.
\<close>

definition finally_block :: "state \<Rightarrow> state" where
  "finally_block s =
     (case reader s of
        Some r \<Rightarrow> (emit (ReleaseLock r) s)\<lparr>reader := None\<rparr>
      | None \<Rightarrow> s)"

fun catch_finally :: "try_end \<times> state \<Rightarrow> bool \<times> state" where
  "catch_finally (Broke, s) = (True, finally_block s)"
| "catch_finally (Caught e, s) =
     (let s1 = emit (ConsoleError e) s
      in if instanceof_Error e
         then (True, finally_block (dumpSerialOut (js ''<ERROR: '' @ message e @ js (''>'' @ [CHR 0x0A])) s1))
         else (False, s1))"
| "catch_finally (Waiting, s) = (False, s)"

definition getReader :: "handle \<Rightarrow> state \<Rightarrow> state" where
  "getReader p s = (emit (GetReader p) s)\<lparr>reader := Some p\<rparr>"

definition run_session :: "handle \<Rightarrow> read_event list \<Rightarrow> bool \<Rightarrow> state \<Rightarrow> bool \<times> state" where
  "run_session p evs r s =
     (case catch_finally (inner_loop evs s) of
        (False, s') \<Rightarrow> (False, s')
      | (True, s') \<Rightarrow> (True, s'\<lparr>readable := (readable s')(p := r)\<rparr>))"

text \<open>
  \<^verbatim>\<open>
  while (port && port.readable) {
    try {
      reader = port.readable.getReader({mode: 'byob'});
      ...
  \<close>
  The result tells whether the loop is left.
\<close>

fun read_loop :: "session list \<Rightarrow> state \<Rightarrow> bool \<times> state" where
  "read_loop [] s =
     (case port s of
        None \<Rightarrow> (True, s)
      | Some p \<Rightarrow> if readable s p then (False, getReader p s) else (True, s))"
| "read_loop (GetReaderThrows e r # rest) s =
     (case port s of
        None \<Rightarrow> (True, s)
      | Some p \<Rightarrow>
          if readable s p then
            (case catch_finally (Caught e, emit (GetReader p) s) of
               (False, s') \<Rightarrow> (False, s')
             | (True, s') \<Rightarrow> read_loop rest (s'\<lparr>readable := (readable s')(p := r)\<rparr>))
          else (True, s))"
| "read_loop (Reads evs r # rest) s =
     (case port s of
        None \<Rightarrow> (True, s)
      | Some p \<Rightarrow>
          if readable s p then
            (case run_session p evs r (getReader p s) of
               (False, s') \<Rightarrow> (False, s')
             | (True, s') \<Rightarrow> read_loop rest s')
          else (True, s))"

text \<open>
  The end of \<open>connectToPort\<close> and the closing of \<open>disconnectFromPort\<close>:
  \<^verbatim>\<open>
    try {
      await port.close();              // localPort.close() in disconnectFromPort
    } catch (e) {
      console.error(e);
      if (e instanceof Error) {
        dumpSerialOut(`<ERROR: ${e.message}>`);
      }
    }
  \<close>
  A port that has been closed has no streams.
\<close>

definition try_close :: "handle \<Rightarrow> thrown option \<Rightarrow> state \<Rightarrow> state" where
  "try_close p res s =
     (let s1 = emit (Close p) s
      in case res of
           None \<Rightarrow> s1\<lparr>readable := (readable s1)(p := False), writable := (writable s1)(p := False)\<rparr>
         | Some e \<Rightarrow>
             (let s2 = emit (ConsoleError e) s1
              in if instanceof_Error e
                 then dumpSerialOut (js ''<ERROR: '' @ message e @ js ''>'') s2
                 else s2))"

text \<open>
  \<^verbatim>\<open>
  if (port) {
    try { await port.close(); } catch (e) { ... }
    markDisconnected();
  }
  \<close>
\<close>

definition connect_close :: "thrown option \<Rightarrow> state \<Rightarrow> outcome \<times> state" where
  "connect_close res s =
     (case port s of
        None \<Rightarrow> (Returned, s)
      | Some p \<Rightarrow> (Returned, markDisconnected (try_close p res s)))"

definition connect_rest :: "session list \<Rightarrow> thrown option \<Rightarrow> state \<Rightarrow> outcome \<times> state" where
  "connect_rest ss res s =
     (case read_loop ss s of
        (False, s') \<Rightarrow> (Pending, s')
      | (True, s') \<Rightarrow> connect_close res s')"

text \<open>
  \<open>connectToPort\<close>, taken up where a read of the reader of \<open>p\<close> that was pending settles
  with \<open>ev\<close>.
\<close>

definition connect_resume ::
  "handle \<Rightarrow> read_event \<Rightarrow> read_event list \<Rightarrow> bool \<Rightarrow> session list \<Rightarrow> thrown option \<Rightarrow>
   state \<Rightarrow> outcome \<times> state" where
  "connect_resume p ev evs r rest res s =
     (case run_session p (ev # evs) r s of
        (False, s') \<Rightarrow> (Pending, s')
      | (True, s') \<Rightarrow> connect_rest rest res s')"

text \<open>
  What a pending read settles with when its reader is cancelled (WHATWG Streams: the
  close steps of the read request, given undefined).
\<close>

definition cancelled_read :: read_event where
  "cancelled_read = ReadResult None True"

text \<open>
  \<^verbatim>\<open>
  async function connectToPort(): Promise<void> {
    await getSelectedPort();
    if (!port) {
      return;
    }
    const options = { baudRate: 9600, dataBits: 7, parity: 'even' as ParityType,
      stopBits: 1, flowControl: <const> 'none', bufferSize };
    console.log(options);

    portSelector.disabled = true;
    connectButton.textContent = 'Connecting...';
    connectButton.disabled = true;

    try {
      await port.open(options);
      dumpSerialOut('<CONNECTED>\n');
      connectButton.textContent = 'Disconnect';
      connectButton.disabled = false;
    } catch (e) {
      console.error(e);
      if (e instanceof Error) {
        dumpSerialOut(`<ERROR: ${e.message}>\n`);
      }
      markDisconnected();
      return;
    }
    while (port && port.readable) { ... }
    if (port) { ... }
  }
  \<close>
  \<open>connecting\<close> is the part from \<open>console.log\<close> to the call of \<open>open\<close>, \<open>opened\<close>
  the rest of the \<open>try\<close> and \<open>open_failed\<close> the \<open>catch\<close>. A port that has been opened has
  both its streams.
\<close>

definition connecting :: "handle \<Rightarrow> state \<Rightarrow> state" where
  "connecting p s =
     emit (Open p)
       ((emit ConsoleLog s)
          \<lparr>portSelector_disabled := True,
           connectButton_textContent := js ''Connecting...'',
           connectButton_disabled := True\<rparr>)"

definition opened :: "handle \<Rightarrow> state \<Rightarrow> state" where
  "opened p s =
     (dumpSerialOut (js (''<CONNECTED>'' @ [CHR 0x0A]))
        (s\<lparr>readable := (readable s)(p := True), writable := (writable s)(p := True)\<rparr>))
       \<lparr>connectButton_textContent := js ''Disconnect'',
        connectButton_disabled := False\<rparr>"

definition open_failed :: "thrown \<Rightarrow> state \<Rightarrow> state" where
  "open_failed e s =
     (let s1 = emit (ConsoleError e) s;
          s2 = (if instanceof_Error e
                then dumpSerialOut (js ''<ERROR: '' @ message e @ js (''>'' @ [CHR 0x0A])) s1
                else s1)
      in markDisconnected s2)"

definition connectToPort :: "host \<Rightarrow> state \<Rightarrow> outcome \<times> state" where
  "connectToPort h s =
     (case getSelectedPort (requestPort_result h) s of
        (Threw e, s1) \<Rightarrow> (Threw e, s1)
      | (Pending, s1) \<Rightarrow> (Pending, s1)
      | (Returned, s1) \<Rightarrow>
          (case port s1 of
             None \<Rightarrow> (Returned, s1)
           | Some p \<Rightarrow>
               (case open_result h of
                  Some e \<Rightarrow> (Returned, open_failed e (connecting p s1))
                | None \<Rightarrow>
                    connect_rest (sessions h) (close_result h) (opened p (connecting p s1)))))"

section \<open>Disconnecting\<close>

text \<open>
  \<^verbatim>\<open>
  async function disconnectFromPort(): Promise<void> {
    // Move |port| into a local variable so that connectToPort() doesn't try to
    // close it on exit.
    const localPort = port;
    port = undefined;

    if (reader) {
      await reader.cancel();
    }

    if (localPort) {
      try { await localPort.close(); } catch (e) { ... }
    }

    markDisconnected();
  }
  \<close>
  \<open>disconnect_begin\<close> is the function up to the point where it waits for \<open>cancel\<close>;
  the first argument of \<open>disconnectFromPort\<close> is the outcome of \<open>cancel\<close>, the second
  that of \<open>close\<close>.
\<close>

definition disconnect_begin :: "state \<Rightarrow> state" where
  "disconnect_begin s =
     (let s1 = s\<lparr>port := None\<rparr>
      in case reader s1 of
           Some r \<Rightarrow> emit (Cancel r) s1
         | None \<Rightarrow> s1)"

definition disconnect_close :: "handle option \<Rightarrow> thrown option \<Rightarrow> state \<Rightarrow> outcome \<times> state" where
  "disconnect_close localPort res s =
     (case localPort of
        None \<Rightarrow> (Returned, markDisconnected s)
      | Some p \<Rightarrow> (Returned, markDisconnected (try_close p res s)))"

definition disconnectFromPort :: "thrown option \<Rightarrow> thrown option \<Rightarrow> state \<Rightarrow> outcome \<times> state" where
  "disconnectFromPort cancel_result res s =
     (let localPort = port s;
          s1 = disconnect_begin s
      in case reader s of
           None \<Rightarrow> disconnect_close localPort res s1
         | Some r \<Rightarrow>
             (case cancel_result of
                Some e \<Rightarrow> (Threw e, s1)
              | None \<Rightarrow> disconnect_close localPort res s1))"

section \<open>The listeners of the host's \<open>connect\<close> and \<open>disconnect\<close> events\<close>

text \<open>
  \<^verbatim>\<open>
    navigator.serial.addEventListener('connect', (event) => {
      addNewPort(event.target as SerialPort);
      connectToPort();
    });
    navigator.serial.addEventListener('disconnect', (event) => {
      const portOption = findPortOption(event.target as SerialPort);
      if (portOption) {
        portOption.remove();
      }
    });
  \<close>
\<close>

definition on_connect :: "host \<Rightarrow> handle \<Rightarrow> state \<Rightarrow> outcome \<times> state" where
  "on_connect h target s = connectToPort h (snd (addNewPort target s))"

definition on_disconnect :: "handle \<Rightarrow> state \<Rightarrow> state" where
  "on_disconnect target s =
     (case findPortOption target s of
        Some portOption \<Rightarrow> s\<lparr>options := remove_option portOption (options s)\<rparr>
      | None \<Rightarrow> s)"

text \<open>
  When the page is loaded, the ports the host already knows are listed:
  \<^verbatim>\<open>
    const ports: (SerialPort | SerialPortPolyfill)[] = await serial.getPorts();
    ports.forEach((port) => addNewPort(port));
  \<close>
\<close>

definition list_ports :: "handle list \<Rightarrow> state \<Rightarrow> state" where
  "list_ports ports s = fold (\<lambda>p s. snd (addNewPort p s)) ports s"

section \<open>A page to run the model on\<close>

text \<open>
  The module as it is loaded (\<open>portCounter = 1\<close>, no port, no reader), with a dropdown
  that holds the entry of value \<open>prompt\<close> only, and a host that lets the user pick the
  port 4, opens it, and delivers nothing.
\<close>

definition initial_state :: state where
  "initial_state =
     \<lparr>port = None, reader = None, portCounter = 1,
      options = [\<lparr>ident = 0, textContent = js ''Add a port...'',
                  value_attr = Some (js ''prompt''), option_port = None, selected = True\<rparr>],
      next_ref = 1, portSelector_disabled = False,
      connectButton_textContent = js ''Connect'', connectButton_disabled = False,
      serialOut = Some [], readable = (\<lambda>p. False), writable = (\<lambda>p. False),
      trace = []\<rparr>"

definition quiet_host :: host where
  "quiet_host =
     \<lparr>requestPort_result = Inr 4, open_result = None, sessions = [], close_result = None\<rparr>"


section \<open>Properties of the frame codec\<close>

lemma drop_zeros: "drop n (0 # replicate n (0::byte)) = [0]"
  by (induction n) simp_all

lemma toXK852Cmd_eq: "toXK852Cmd c = Inr (10 # encode c @ [13])"
  by (simp add: toXK852Cmd_def new_Uint8Array_def store_def set_from_def
      Let_def list_update_append nth_append drop_zeros)

text \<open>
  C1: for every string, \<open>toXK852Cmd\<close> returns (and never throws) the byte 10, the UTF-8
  encoding of the string and the byte 13; for \<open>*F0000150\<close> these are the eleven bytes
  10, 42, 70, 48, 48, 48, 48, 49, 53, 48, 13.
\<close>

theorem toXK852Cmd_frame:
  "toXK852Cmd cmd = Inr (10 # encode cmd @ [13]) \<and>
   toXK852Cmd (js ''*F0000150'') = Inr [10, 42, 70, 48, 48, 48, 48, 49, 53, 48, 13]"
proof -
  have "encode (js ''*F0000150'') = [42, 70, 48, 48, 48, 48, 49, 53, 48]"
    by (simp add: encode_def js_def utf8_of_scalar_def is_lead_def is_trail_def)
  then show ?thesis by (simp add: toXK852Cmd_eq)
qed

section \<open>Properties of the frequency command\<close>
















lemma encode_F0001500: "encode (js ''*F0001500'') = [42, 70, 48, 48, 48, 49, 53, 48, 48]"
  by (simp add: encode_def js_def utf8_of_scalar_def is_lead_def is_trail_def)

lemma setFrequency_cmd_15000: "setFrequency_cmd 15000 = js ''*F0001500''"
proof -
  have r: "Math_round 1500 = 1500"
    unfolding Math_round_def by linarith
  have d: "digits 1500 = [49, 53, 48, 48]"
    by (simp add: digits.simps digit_def)
  have "padStart 7 (js ''0000000'') (digits 1500) = js ''0001500''"
    by (simp add: d padStart_def js_def numeral_3_eq_3)
  then show ?thesis by (simp add: setFrequency_cmd_def String_of_def r js_def)
qed








text \<open>
  C3, as the claim has it, fails: for the value 15000 the command is not \<open>*F0000150\<close>.
\<close>

theorem setFrequency_15000_not_150: "setFrequency_cmd 15000 \<noteq> js ''*F0000150''"
  by (simp add: setFrequency_cmd_15000 js_def)

text \<open>
  C3, amended: for the value 15000 the command is \<open>*F0001500\<close>, and \<open>setFrequency\<close> hands
  its frame, the bytes 10, 42, 70, 48, 48, 48, 49, 53, 48, 48, 13, to \<open>sendSerial\<close>.
\<close>

theorem setFrequency_15000:
  "setFrequency_cmd 15000 = js ''*F0001500'' \<and>
   setFrequency (Some 15000) s = sendSerial [10, 42, 70, 48, 48, 48, 49, 53, 48, 48, 13] s"
  by (simp add: setFrequency_def toXK852Cmd_eq setFrequency_cmd_15000 encode_F0001500)

section \<open>Running the model\<close>

lemmas exec_defs = emit_def dumpSerialOut_def markDisconnected_def try_close_def
  finally_block_def getReader_def dump_chunk_def connecting_def opened_def open_failed_def

lemma getSelectedPort_pick:
  "getSelectedPort (Inr 4) initial_state =
     (Returned,
      initial_state\<lparr>port := Some 4, portCounter := 2, next_ref := 2,
        options :=
          [\<lparr>ident = 0, textContent = js ''Add a port...'', value_attr = Some (js ''prompt''),
            option_port = None, selected = False\<rparr>,
           \<lparr>ident = 1, textContent = js ''Port 1'', value_attr = None,
            option_port = Some 4, selected = True\<rparr>],
        trace := [(RequestPort, None)]\<rparr>)"
proof -
  have "digits 1 = js ''1''" by (simp add: digits.simps digit_def js_def)
  then have "js ''Port '' @ digits 1 = js ''Port 1''" by (simp add: js_def)
  then show ?thesis
    by (simp add: getSelectedPort_def portSelector_value_def selectedOptions_def option_value_def
        initial_state_def emit_def maybeAddNewPort_def findPortOption_def addNewPort_def
        set_selected_def Let_def)
qed

lemma quiet_run:
  "fst (connectToPort quiet_host initial_state) = Pending"
  "port (snd (connectToPort quiet_host initial_state)) = Some 4"
  "reader (snd (connectToPort quiet_host initial_state)) = Some 4"
  "serialOut (snd (connectToPort quiet_host initial_state)) = Some (js (''<CONNECTED>'' @ [CHR 0x0A]))"
  "trace (snd (connectToPort quiet_host initial_state)) =
     [(RequestPort, None), (ConsoleLog, Some 4), (Open 4, Some 4),
      (DumpSerialOut (js (''<CONNECTED>'' @ [CHR 0x0A])), Some 4), (GetReader 4, Some 4)]"
proof -
  have q: "requestPort_result quiet_host = Inr 4" "open_result quiet_host = None"
    "sessions quiet_host = []"
    by (simp_all add: quiet_host_def)
  have c: "connectToPort quiet_host initial_state =
      connect_rest [] (close_result quiet_host)
        (opened 4 (connecting 4 (snd (getSelectedPort (Inr 4) initial_state))))"
    by (simp add: connectToPort_def q getSelectedPort_pick)
  show "fst (connectToPort quiet_host initial_state) = Pending"
    "port (snd (connectToPort quiet_host initial_state)) = Some 4"
    "reader (snd (connectToPort quiet_host initial_state)) = Some 4"
    "serialOut (snd (connectToPort quiet_host initial_state)) = Some (js (''<CONNECTED>'' @ [CHR 0x0A]))"
    "trace (snd (connectToPort quiet_host initial_state)) =
     [(RequestPort, None), (ConsoleLog, Some 4), (Open 4, Some 4),
      (DumpSerialOut (js (''<CONNECTED>'' @ [CHR 0x0A])), Some 4), (GetReader 4, Some 4)]"
    unfolding c getSelectedPort_pick
    by (simp_all add: connect_rest_def exec_defs initial_state_def)
qed

section \<open>Properties of sending\<close>

text \<open>
  C7: when no port is set, or the port that is set has no writable stream, \<open>sendSerial\<close>
  returns without throwing, whatever the buffer, and all it does is the one
  \<open>console.warn\<close>: nothing is written to any stream and the page is otherwise untouched.
\<close>

theorem sendSerial_without_port:
  assumes "port s = None \<or> (\<exists>p. port s = Some p \<and> \<not> writable s p)"
  shows "sendSerial data s =
    (Returned, s\<lparr>trace := trace s @ [(ConsoleWarn (js ''unable to find writable port''), port s)]\<rparr>)"
  using assms by (auto simp: sendSerial_def emit_def)

theorem sendSerial_without_port_witness:
  "port initial_state = None \<and>
   sendSerial [10, 42, 13] initial_state =
     (Returned, initial_state\<lparr>trace := [(ConsoleWarn (js ''unable to find writable port''), None)]\<rparr>)"
proof -
  have h: "port initial_state = None" by (simp add: initial_state_def)
  have t: "trace initial_state = []" by (simp add: initial_state_def)
  from h have "port initial_state = None \<or>
      (\<exists>p. port initial_state = Some p \<and> \<not> writable initial_state p)"
    by simp
  from sendSerial_without_port [OF this, of "[10, 42, 13]"] h t show ?thesis by simp
qed

section \<open>Properties of the port registry\<close>

lemma find_in_append:
  "find_in p (xs @ ys) = (case find_in p xs of Some r \<Rightarrow> Some r | None \<Rightarrow> find_in p ys)"
  by (induction xs) simp_all

lemma Port_not_prompt: "js ''Port '' @ ds \<noteq> js ''prompt''"
  by (simp add: js_def)

lemma findPortOption_addNewPort:
  assumes "findPortOption p s = None"
  shows "findPortOption p (snd (addNewPort p s)) = Some (fst (addNewPort p s))"
  using assms
  by (simp add: findPortOption_def addNewPort_def Let_def find_in_append option_value_def
      Port_not_prompt)

text \<open>
  C8: for every handle and every state of the page, a second \<open>maybeAddNewPort\<close> right
  after the first returns the same element and adds nothing: it finds, by
  \<open>findPortOption\<close>, the element the first call found or made.
\<close>

theorem maybeAddNewPort_twice:
  "(case maybeAddNewPort H s of
      (portOption, s1) \<Rightarrow>
        maybeAddNewPort H s1 = (portOption, s1) \<and> findPortOption H s1 = Some portOption)"
proof (cases "findPortOption H s")
  case None
  obtain r s1 where a: "addNewPort H s = (r, s1)" by (cases "addNewPort H s")
  with findPortOption_addNewPort [OF None] have "findPortOption H s1 = Some r" by simp
  with None a show ?thesis by (simp add: maybeAddNewPort_def)
next
  case (Some r)
  then show ?thesis by (simp add: maybeAddNewPort_def)
qed

lemma port_refs_Nil [simp]: "port_refs [] = []"
  by (simp add: port_refs_def map_filter_simps)

lemma port_refs_Cons [simp]:
  "port_refs (opt # opts) =
     (case option_port opt of None \<Rightarrow> port_refs opts | Some h \<Rightarrow> h # port_refs opts)"
  by (simp add: port_refs_def map_filter_simps split: option.splits)

lemma port_refs_append [simp]: "port_refs (xs @ ys) = port_refs xs @ port_refs ys"
  by (induction xs) (simp_all split: option.splits)

lemma find_in_None:
  "prompt_free opts \<Longrightarrow> find_in p opts = None \<longleftrightarrow> p \<notin> set (port_refs opts)"
  by (induction opts) (auto simp: prompt_free_def split: option.splits)

lemma port_refs_reselect: "port_refs (reselect opts) = port_refs opts"
  by (cases opts) (simp_all add: reselect_def split: option.splits)

lemma prompt_free_reselect: "prompt_free (reselect opts) = prompt_free opts"
  by (cases opts) (auto simp: reselect_def prompt_free_def option_value_def cong: option.case_cong)

lemma set_port_refs_delete: "set (port_refs (delete_option r opts)) \<subseteq> set (port_refs opts)"
  by (induction opts) (auto split: option.splits)

lemma distinct_port_refs_remove:
  "distinct (port_refs opts) \<Longrightarrow> distinct (port_refs (remove_option r opts))"
  unfolding remove_option_def port_refs_reselect
  using set_port_refs_delete by (induction opts) (auto split: option.splits)

lemma prompt_free_remove: "prompt_free opts \<Longrightarrow> prompt_free (remove_option r opts)"
  unfolding remove_option_def prompt_free_reselect
  by (induction opts) (auto simp: prompt_free_def)

lemma registry_ok_addNewPort:
  "registry_ok s \<Longrightarrow> p \<notin> set (port_refs (options s)) \<Longrightarrow> registry_ok (snd (addNewPort p s))"
  by (simp add: registry_ok_def addNewPort_def Let_def prompt_free_def option_value_def
      Port_not_prompt)

lemma registry_ok_maybeAddNewPort:
  "registry_ok s \<Longrightarrow> registry_ok (snd (maybeAddNewPort p s))"
proof (cases "findPortOption p s")
  case None
  assume ok: "registry_ok s"
  with None have "p \<notin> set (port_refs (options s))"
    by (simp add: findPortOption_def registry_ok_def find_in_None)
  with ok None show ?thesis by (simp add: maybeAddNewPort_def registry_ok_addNewPort)
next
  case (Some r)
  assume "registry_ok s"
  with Some show ?thesis by (simp add: maybeAddNewPort_def)
qed

lemma registry_ok_on_disconnect: "registry_ok s \<Longrightarrow> registry_ok (on_disconnect p s)"
  by (simp add: on_disconnect_def registry_ok_def distinct_port_refs_remove prompt_free_remove
      split: option.splits)

lemma on_disconnect_reselects:
  "portSelector_value (on_disconnect 4 (snd (getSelectedPort (Inr 4) initial_state))) =
     js ''prompt''"
  unfolding getSelectedPort_pick
  by (simp add: on_disconnect_def findPortOption_def portSelector_value_def selectedOptions_def
      option_value_def initial_state_def remove_option_def reselect_def js_def)

lemma port_refs_selected:
  "port_refs (map (\<lambda>opt. opt\<lparr>selected := f opt\<rparr>) opts) = port_refs opts"
  by (induction opts) (simp_all split: option.splits)

lemma prompt_free_selected:
  "prompt_free (map (\<lambda>opt. opt\<lparr>selected := f opt\<rparr>) opts) = prompt_free opts"
  by (simp add: prompt_free_def option_value_def list.pred_map comp_def cong: option.case_cong)

lemma registry_ok_set_selected: "registry_ok (set_selected r s) = registry_ok s"
  by (simp add: registry_ok_def set_selected_def port_refs_selected prompt_free_selected)

lemma registry_ok_getSelectedPort:
  assumes "registry_ok s"
  shows "registry_ok (snd (getSelectedPort req s))"
proof -
  have a: "registry_ok (emit RequestPort s)"
    using assms by (simp add: registry_ok_def emit_def)
  have b: "registry_ok s2"
    if "maybeAddNewPort p ((emit RequestPort s)\<lparr>port := Some p\<rparr>) = (r, s2)" for p r s2
  proof -
    have "registry_ok ((emit RequestPort s)\<lparr>port := Some p\<rparr>)"
      using assms by (simp add: registry_ok_def emit_def)
    from registry_ok_maybeAddNewPort [OF this, of p] that show ?thesis by simp
  qed
  have c: "registry_ok (s\<lparr>port := x\<rparr>)" for x
    using assms by (simp add: registry_ok_def)
  show ?thesis
    using assms
    by (simp add: getSelectedPort_def Let_def registry_ok_set_selected a b c
        split: sum.splits list.splits prod.splits)
qed

lemma at_most_one:
  "distinct (port_refs opts) \<Longrightarrow> length (filter (\<lambda>opt. option_port opt = Some h) opts) \<le> 1"
proof (induction opts)
  case Nil
  then show ?case by simp
next
  case (Cons opt opts)
  show ?case
  proof (cases "option_port opt = Some h")
    case True
    with Cons.prems have "h \<notin> set (port_refs opts)" by simp
    then have "filter (\<lambda>opt. option_port opt = Some h) opts = []"
      by (induction opts) (auto split: option.splits)
    with True show ?thesis by simp
  next
    case False
    with Cons show ?thesis by (simp split: option.splits)
  qed
qed

lemma options_inner_loop: "options (snd (inner_loop evs s)) = options s"
  by (induction evs s rule: inner_loop.induct) (simp_all add: Let_def exec_defs split: option.splits)

lemma options_catch_finally: "options (snd (catch_finally x)) = options (snd x)"
  by (cases x rule: catch_finally.cases) (simp_all add: Let_def exec_defs split: option.splits)

lemma options_run_session: "options (snd (run_session p evs r s)) = options s"
  using options_catch_finally [of "inner_loop evs s"] options_inner_loop [of evs s]
  by (cases "catch_finally (inner_loop evs s)") (auto simp: run_session_def split: bool.splits)

lemma options_read_loop: "options (snd (read_loop ss s)) = options s"
proof (induction ss s rule: read_loop.induct)
  case (1 s)
  then show ?case by (simp add: exec_defs split: option.splits)
next
  case (2 e r rest s)
  show ?case
  proof (cases "port s")
    case None
    then show ?thesis by simp
  next
    case (Some p)
    show ?thesis
    proof (cases "readable s p")
      case False
      with Some show ?thesis by simp
    next
      case True
      obtain b s' where c: "catch_finally (Caught e, emit (GetReader p) s) = (b, s')"
        by (cases "catch_finally (Caught e, emit (GetReader p) s)")
      with options_catch_finally [of "(Caught e, emit (GetReader p) s)"]
      have o: "options s' = options s" by (simp add: emit_def)
      show ?thesis
      proof (cases b)
        case False
        with Some True c o show ?thesis by simp
      next
        case b: True
        with "2.IH" [OF Some True c [symmetric]] Some True c o
        show ?thesis by simp
      qed
    qed
  qed
next
  case (3 evs r rest s)
  show ?case
  proof (cases "port s")
    case None
    then show ?thesis by simp
  next
    case (Some p)
    show ?thesis
    proof (cases "readable s p")
      case False
      with Some show ?thesis by simp
    next
      case True
      obtain b s' where c: "run_session p evs r (getReader p s) = (b, s')"
        by (cases "run_session p evs r (getReader p s)")
      with options_run_session [of p evs r "getReader p s"]
      have o: "options s' = options s" by (simp add: exec_defs)
      show ?thesis
      proof (cases b)
        case False
        with Some True c o show ?thesis by simp
      next
        case b: True
        with "3.IH" [OF Some True c [symmetric]] Some True c o
        show ?thesis by simp
      qed
    qed
  qed
qed

lemma options_connect_rest: "options (snd (connect_rest ss k s)) = options s"
  using options_read_loop [of ss s]
  by (cases "read_loop ss s")
    (auto simp: connect_rest_def connect_close_def exec_defs Let_def
      split: bool.splits option.splits)

lemma options_connectToPort:
  "options (snd (connectToPort h s)) = options (snd (getSelectedPort (requestPort_result h) s))"
  by (auto simp: connectToPort_def options_connect_rest exec_defs Let_def
      split: prod.splits outcome.splits option.splits)

lemma registry_ok_connectToPort:
  "registry_ok s \<Longrightarrow> registry_ok (snd (connectToPort h s))"
  using registry_ok_getSelectedPort [of s "requestPort_result h"]
  by (simp add: registry_ok_def options_connectToPort)

lemma options_getSelectedPort_listed:
  "portSelector_value s \<noteq> js ''prompt'' \<Longrightarrow> options (snd (getSelectedPort req s)) = options s"
  by (simp add: getSelectedPort_def split: list.splits)

lemma port_refs_addNewPort:
  "port_refs (options (snd (addNewPort p s))) = port_refs (options s) @ [p]"
  by (simp add: addNewPort_def Let_def)

lemma registry_ok_list_ports:
  "registry_ok s \<Longrightarrow> distinct ps \<Longrightarrow> set ps \<inter> set (port_refs (options s)) = {} \<Longrightarrow>
   registry_ok (list_ports ps s)"
proof (induction ps arbitrary: s)
  case Nil
  then show ?case by (simp add: list_ports_def)
next
  case (Cons p ps)
  from Cons.prems have "registry_ok (snd (addNewPort p s))"
    by (intro registry_ok_addNewPort) auto
  moreover from Cons.prems have "distinct ps" by simp
  moreover from Cons.prems
  have "set ps \<inter> set (port_refs (options (snd (addNewPort p s)))) = {}"
    by (auto simp: port_refs_addNewPort)
  ultimately have "registry_ok (list_ports ps (snd (addNewPort p s)))"
    by (rule Cons.IH)
  then show ?case by (simp add: list_ports_def)
qed

text \<open>
  C9, as the claim has it, fails: the listener of the host's \<open>connect\<close> event calls
  \<open>addNewPort\<close>, which does not look the handle up. After the user has picked port 4
  and the page has connected to it, a \<open>connect\<close> event for the same handle leaves two
  entries that refer to it.
\<close>

theorem on_connect_duplicates:
  "registry_ok (snd (connectToPort quiet_host initial_state)) \<and>
   port_refs (options (snd (on_connect
       (quiet_host\<lparr>open_result := Some (ErrorObj (js ''The port is already open.''))\<rparr>) 4
       (snd (connectToPort quiet_host initial_state))))) = [4, 4] \<and>
   \<not> registry_ok (snd (on_connect
       (quiet_host\<lparr>open_result := Some (ErrorObj (js ''The port is already open.''))\<rparr>) 4
       (snd (connectToPort quiet_host initial_state))))"
proof -
  let ?h = "quiet_host\<lparr>open_result := Some (ErrorObj (js ''The port is already open.''))\<rparr>"
  let ?s = "snd (connectToPort quiet_host initial_state)"
  have o: "options ?s =
          [\<lparr>ident = 0, textContent = js ''Add a port...'', value_attr = Some (js ''prompt''),
            option_port = None, selected = False\<rparr>,
           \<lparr>ident = 1, textContent = js ''Port 1'', value_attr = None,
            option_port = Some 4, selected = True\<rparr>]"
    by (simp add: options_connectToPort quiet_host_def getSelectedPort_pick)
  have ok: "registry_ok ?s"
    by (simp add: registry_ok_def o prompt_free_def option_value_def js_def)
  have "portSelector_value (snd (addNewPort 4 ?s)) \<noteq> js ''prompt''"
    by (simp add: portSelector_value_def selectedOptions_def addNewPort_def Let_def o
        option_value_def js_def)
  then have "options (snd (on_connect ?h 4 ?s)) = options (snd (addNewPort 4 ?s))"
    by (simp add: on_connect_def options_connectToPort options_getSelectedPort_listed)
  then have r: "port_refs (options (snd (on_connect ?h 4 ?s))) = [4, 4]"
    by (simp add: addNewPort_def Let_def o)
  from ok r show ?thesis by (simp add: registry_ok_def)
qed

text \<open>
  C9, amended: \<open>maybeAddNewPort\<close>, and with it \<open>getSelectedPort\<close> and \<open>connectToPort\<close>,
  looks a handle up before it adds an entry, so a dropdown in which no handle is referred
  to twice stays so; removing the entry of a handle on the host's \<open>disconnect\<close> event
  keeps it so as well. \<open>addNewPort\<close>, which the listener of the \<open>connect\<close> event and the
  listing of the ports at load time call, adds without a lookup and keeps it so when the
  handle is not yet in the dropdown (for the listing: when the ports listed are distinct
  and none is in the dropdown). In such a dropdown at most one entry refers to a given
  handle.
\<close>

theorem registry_lookup_before_insert:
  assumes "registry_ok s"
  shows "registry_ok (snd (maybeAddNewPort p s)) \<and>
         registry_ok (snd (getSelectedPort req s)) \<and>
         registry_ok (snd (connectToPort h s)) \<and>
         registry_ok (on_disconnect p s) \<and>
         (p \<notin> set (port_refs (options s)) \<longrightarrow>
            registry_ok (snd (addNewPort p s)) \<and> registry_ok (snd (on_connect h p s))) \<and>
         (distinct ps \<and> set ps \<inter> set (port_refs (options s)) = {} \<longrightarrow>
            registry_ok (list_ports ps s)) \<and>
         length (filter (\<lambda>opt. option_port opt = Some p) (options s)) \<le> 1"
proof -
  have "registry_ok (snd (on_connect h p s))" if "p \<notin> set (port_refs (options s))"
    unfolding on_connect_def
    by (intro registry_ok_connectToPort registry_ok_addNewPort assms that)
  moreover from assms have "length (filter (\<lambda>opt. option_port opt = Some p) (options s)) \<le> 1"
    using at_most_one [of "options s" p] by (simp add: registry_ok_def)
  ultimately show ?thesis
    using assms
    by (simp add: registry_ok_maybeAddNewPort registry_ok_getSelectedPort
        registry_ok_connectToPort registry_ok_on_disconnect registry_ok_addNewPort
        registry_ok_list_ports)
qed

theorem registry_lookup_before_insert_witness:
  "registry_ok initial_state \<and> 4 \<notin> set (port_refs (options initial_state)) \<and>
   registry_ok (snd (maybeAddNewPort 4 initial_state)) \<and>
   registry_ok (snd (maybeAddNewPort 4 (snd (maybeAddNewPort 4 initial_state)))) \<and>
   registry_ok (snd (on_connect quiet_host 4 initial_state)) \<and>
   registry_ok (list_ports [4, 7] initial_state) \<and>
   registry_ok (on_disconnect 4 (snd (maybeAddNewPort 4 initial_state))) \<and>
   port_refs (options (snd (maybeAddNewPort 4 (snd (maybeAddNewPort 4 initial_state))))) = [4]"
proof -
  have i: "registry_ok initial_state"
    by (simp add: registry_ok_def initial_state_def prompt_free_def)
  have n: "4 \<notin> set (port_refs (options initial_state))"
    by (simp add: initial_state_def)
  note a = registry_lookup_before_insert [OF i, where p = 4 and h = quiet_host]
  from a have 1: "registry_ok (snd (maybeAddNewPort 4 initial_state))" by blast
  note b = registry_lookup_before_insert [OF 1, where p = 4]
  from b have 2: "registry_ok (snd (maybeAddNewPort 4 (snd (maybeAddNewPort 4 initial_state))))"
    by blast
  from a n have 3: "registry_ok (snd (on_connect quiet_host 4 initial_state))" by blast
  have "distinct [4, 7 :: handle] \<and> set [4, 7] \<inter> set (port_refs (options initial_state)) = {}"
    by (simp add: initial_state_def)
  with registry_lookup_before_insert [OF i, where ps = "[4, 7]"]
  have 5: "registry_ok (list_ports [4, 7] initial_state)" by blast
  from b have 6: "registry_ok (on_disconnect 4 (snd (maybeAddNewPort 4 initial_state)))" by blast
  have "js ''Port '' @ digits 1 \<noteq> js ''prompt''" by (rule Port_not_prompt)
  then have 4: "port_refs (options (snd (maybeAddNewPort 4 (snd (maybeAddNewPort 4 initial_state))))) = [4]"
    by (simp add: maybeAddNewPort_def findPortOption_def addNewPort_def Let_def initial_state_def
        option_value_def)
  from i n 1 2 3 4 5 6 show ?thesis by simp
qed

section \<open>Properties of connecting\<close>

lemma read_loop_not_threw: "fst (connect_rest ss k s) \<noteq> Threw e"
  by (simp add: connect_rest_def connect_close_def split: prod.splits bool.splits option.splits)

lemma connectToPort_not_threw:
  assumes "selectedOptions s \<noteq> []"
  shows "fst (connectToPort h s) \<noteq> Threw e"
proof -
  from assms have "fst (getSelectedPort (requestPort_result h) s) = Returned"
    by (simp add: getSelectedPort_def Let_def split: sum.splits list.splits prod.splits)
  then obtain s1 where "getSelectedPort (requestPort_result h) s = (Returned, s1)"
    by (cases "getSelectedPort (requestPort_result h) s") simp
  then show ?thesis
    by (simp add: connectToPort_def Let_def read_loop_not_threw split: option.splits)
qed

text \<open>
  C5, as the claim has it, fails: when the user dismisses the chooser, \<open>connectToPort\<close>
  returns and nothing is written to the log view.
\<close>

theorem connectToPort_cancel_silent:
  "connectToPort (quiet_host\<lparr>requestPort_result := Inl (ErrorObj (js ''No port selected by the user.''))\<rparr>)
     initial_state = (Returned, initial_state\<lparr>trace := [(RequestPort, None)]\<rparr>)"
  by (simp add: connectToPort_def getSelectedPort_def portSelector_value_def selectedOptions_def
      option_value_def initial_state_def quiet_host_def emit_def)

text \<open>
  C5, amended: when no port is set and the user dismisses the chooser, \<open>connectToPort\<close>
  returns without a word in the log view and leaves the page as it was. When \<open>open\<close>
  fails, it logs \<open><ERROR: message>\<close> if the value thrown is an \<open>Error\<close>, then
  \<open><DISCONNECTED>\<close>, resets the dropdown and the button, sets \<open>port\<close> to undefined and
  returns. Whatever the host answers, it throws nothing to its caller when an entry of
  the dropdown is selected.
\<close>

theorem connectToPort_failure:
  "(port s = None \<and> portSelector_value s = js ''prompt'' \<and> requestPort_result h = Inl e \<longrightarrow>
      connectToPort h s = (Returned, s\<lparr>trace := trace s @ [(RequestPort, None)]\<rparr>)) \<and>
   (getSelectedPort (requestPort_result h) s = (Returned, s1) \<and> port s1 = Some p \<and>
    open_result h = Some e \<longrightarrow>
      connectToPort h s =
        (Returned,
         s1\<lparr>port := None, portSelector_disabled := False,
            connectButton_textContent := js ''Connect'', connectButton_disabled := False,
            serialOut := map_option
              (\<lambda>t. t @ (if instanceof_Error e
                          then js ''<ERROR: '' @ message e @ js (''>'' @ [CHR 0x0A]) else []) @
                     js (''<DISCONNECTED>'' @ [CHR 0x0A])) (serialOut s1),
            trace := trace s1 @
              [(ConsoleLog, Some p), (Open p, Some p), (ConsoleError e, Some p)] @
              (if instanceof_Error e
               then [(DumpSerialOut (js ''<ERROR: '' @ message e @ js (''>'' @ [CHR 0x0A])), Some p)]
               else []) @
              [(DumpSerialOut (js (''<DISCONNECTED>'' @ [CHR 0x0A])), Some p)]\<rparr>)) \<and>
   (selectedOptions s \<noteq> [] \<longrightarrow> (\<forall>x. fst (connectToPort h s) \<noteq> Threw x))"
proof -
  have cancel: "connectToPort h s = (Returned, s\<lparr>trace := trace s @ [(RequestPort, None)]\<rparr>)"
    if "port s = None" "portSelector_value s = js ''prompt''" "requestPort_result h = Inl e"
    using that by (simp add: connectToPort_def getSelectedPort_def emit_def)
  have "open": "connectToPort h s =
        (Returned,
         s1\<lparr>port := None, portSelector_disabled := False,
            connectButton_textContent := js ''Connect'', connectButton_disabled := False,
            serialOut := map_option
              (\<lambda>t. t @ (if instanceof_Error e
                          then js ''<ERROR: '' @ message e @ js (''>'' @ [CHR 0x0A]) else []) @
                     js (''<DISCONNECTED>'' @ [CHR 0x0A])) (serialOut s1),
            trace := trace s1 @
              [(ConsoleLog, Some p), (Open p, Some p), (ConsoleError e, Some p)] @
              (if instanceof_Error e
               then [(DumpSerialOut (js ''<ERROR: '' @ message e @ js (''>'' @ [CHR 0x0A])), Some p)]
               else []) @
              [(DumpSerialOut (js (''<DISCONNECTED>'' @ [CHR 0x0A])), Some p)]\<rparr>)"
    if "getSelectedPort (requestPort_result h) s = (Returned, s1)" "port s1 = Some p"
      "open_result h = Some e"
    using that
    by (simp add: connectToPort_def Let_def exec_defs option.map_comp comp_def
        cong: option.map_cong)
  from cancel "open" connectToPort_not_threw [of s h] show ?thesis by blast
qed

theorem connectToPort_failure_witness:
  "port initial_state = None \<and> portSelector_value initial_state = js ''prompt'' \<and>
   connectToPort (quiet_host\<lparr>requestPort_result := Inl (ErrorObj (js ''No port selected by the user.''))\<rparr>)
     initial_state = (Returned, initial_state\<lparr>trace := [(RequestPort, None)]\<rparr>) \<and>
   fst (connectToPort (quiet_host\<lparr>open_result := Some (ErrorObj (js ''Failed to open serial port.''))\<rparr>)
     initial_state) = Returned \<and>
   port (snd (connectToPort (quiet_host\<lparr>open_result := Some (ErrorObj (js ''Failed to open serial port.''))\<rparr>)
     initial_state)) = None \<and>
   serialOut (snd (connectToPort (quiet_host\<lparr>open_result := Some (ErrorObj (js ''Failed to open serial port.''))\<rparr>)
     initial_state)) =
     Some (js (''<ERROR: Failed to open serial port.>'' @ [CHR 0x0A] @ ''<DISCONNECTED>'' @ [CHR 0x0A]))"
proof -
  let ?c = "quiet_host\<lparr>requestPort_result := Inl (ErrorObj (js ''No port selected by the user.''))\<rparr>"
  let ?o = "quiet_host\<lparr>open_result := Some (ErrorObj (js ''Failed to open serial port.''))\<rparr>"
  have i: "port initial_state = None" "portSelector_value initial_state = js ''prompt''"
    "trace initial_state = []" "serialOut initial_state = Some []"
    by (simp_all add: initial_state_def portSelector_value_def selectedOptions_def option_value_def)
  have c: "requestPort_result ?c = Inl (ErrorObj (js ''No port selected by the user.''))"
    by simp
  have o: "requestPort_result ?o = Inr 4"
    "open_result ?o = Some (ErrorObj (js ''Failed to open serial port.''))"
    by (simp_all add: quiet_host_def)
  let ?s1 = "initial_state\<lparr>port := Some 4, portCounter := 2, next_ref := 2,
        options :=
          [\<lparr>ident = 0, textContent = js ''Add a port...'', value_attr = Some (js ''prompt''),
            option_port = None, selected = False\<rparr>,
           \<lparr>ident = 1, textContent = js ''Port 1'', value_attr = None,
            option_port = Some 4, selected = True\<rparr>],
        trace := [(RequestPort, None)]\<rparr>"
  have g: "getSelectedPort (requestPort_result ?o) initial_state = (Returned, ?s1)"
    using getSelectedPort_pick by (simp add: o(1))
  have p1: "port ?s1 = Some 4" by simp
  note cancelled = connectToPort_failure [where s = initial_state and h = ?c,
      THEN conjunct1, rule_format, OF conjI [OF i(1) conjI [OF i(2) c]]]
  note failed = connectToPort_failure [where s = initial_state and h = ?o,
      THEN conjunct2, THEN conjunct1, rule_format, OF conjI [OF g conjI [OF p1 o(2)]]]
  have 1: "connectToPort ?c initial_state = (Returned, initial_state\<lparr>trace := [(RequestPort, None)]\<rparr>)"
    using cancelled by (simp add: i)
  have 2: "fst (connectToPort ?o initial_state) = Returned"
    "port (snd (connectToPort ?o initial_state)) = None"
    "serialOut (snd (connectToPort ?o initial_state)) =
      Some (js (''<ERROR: Failed to open serial port.>'' @ [CHR 0x0A] @ ''<DISCONNECTED>'' @ [CHR 0x0A]))"
    unfolding failed by (simp_all add: i js_def)
  from i 1 2 show ?thesis by simp
qed

section \<open>Properties of disconnecting\<close>

text \<open>
  C6: \<open>disconnectFromPort\<close> leaves \<open>port\<close> undefined whatever happens, and every call of
  \<open>close\<close> it makes finds \<open>port\<close> undefined already. Unless \<open>cancel\<close> rejects, it returns
  with the dropdown and the button reset and \<open><DISCONNECTED>\<close> as the last line logged,
  whether \<open>close\<close> succeeds or throws; with a port set, what it does is, in order: the
  \<open>cancel\<close> if a reader is held, the \<open>close\<close>, the report of what \<open>close\<close> threw if it
  threw, and \<open><DISCONNECTED>\<close>.
\<close>

theorem disconnectFromPort_teardown:
  "port (snd (disconnectFromPort c k s)) = None \<and>
   (\<forall>p q. (Close p, Some q) \<in> set (trace (snd (disconnectFromPort c k s))) \<longrightarrow>
          (Close p, Some q) \<in> set (trace s)) \<and>
   (reader s = None \<or> c = None \<longrightarrow>
      fst (disconnectFromPort c k s) = Returned \<and>
      portSelector_disabled (snd (disconnectFromPort c k s)) = False \<and>
      connectButton_textContent (snd (disconnectFromPort c k s)) = js ''Connect'' \<and>
      connectButton_disabled (snd (disconnectFromPort c k s)) = False \<and>
      last (trace (snd (disconnectFromPort c k s))) =
        (DumpSerialOut (js (''<DISCONNECTED>'' @ [CHR 0x0A])), None)) \<and>
   (port s = Some p \<and> (reader s = None \<or> c = None) \<longrightarrow>
      trace (snd (disconnectFromPort c k s)) =
        trace s @
        (case reader s of Some r \<Rightarrow> [(Cancel r, None)] | None \<Rightarrow> []) @
        [(Close p, None)] @
        (case k of
           None \<Rightarrow> []
         | Some e \<Rightarrow>
             (ConsoleError e, None) #
             (if instanceof_Error e
              then [(DumpSerialOut (js ''<ERROR: '' @ message e @ js ''>''), None)] else [])) @
        [(DumpSerialOut (js (''<DISCONNECTED>'' @ [CHR 0x0A])), None)])"
proof -
  have 1: "port (snd (disconnectFromPort c k s)) = None"
    by (simp add: disconnectFromPort_def disconnect_close_def disconnect_begin_def exec_defs
        Let_def split: option.splits)
  have 2: "(Close p, Some q) \<in> set (trace s)"
    if "(Close p, Some q) \<in> set (trace (snd (disconnectFromPort c k s)))" for p q
    using that
    by (auto simp: disconnectFromPort_def disconnect_close_def disconnect_begin_def exec_defs
        Let_def split: option.splits if_splits)
  have 3: "fst (disconnectFromPort c k s) = Returned \<and>
      portSelector_disabled (snd (disconnectFromPort c k s)) = False \<and>
      connectButton_textContent (snd (disconnectFromPort c k s)) = js ''Connect'' \<and>
      connectButton_disabled (snd (disconnectFromPort c k s)) = False \<and>
      last (trace (snd (disconnectFromPort c k s))) =
        (DumpSerialOut (js (''<DISCONNECTED>'' @ [CHR 0x0A])), None)"
    if "reader s = None \<or> c = None"
    using that
    by (auto simp: disconnectFromPort_def disconnect_close_def disconnect_begin_def exec_defs
        Let_def split: option.splits)
  have 4: "trace (snd (disconnectFromPort c k s)) =
        trace s @
        (case reader s of Some r \<Rightarrow> [(Cancel r, None)] | None \<Rightarrow> []) @
        [(Close p, None)] @
        (case k of
           None \<Rightarrow> []
         | Some e \<Rightarrow>
             (ConsoleError e, None) #
             (if instanceof_Error e
              then [(DumpSerialOut (js ''<ERROR: '' @ message e @ js ''>''), None)] else [])) @
        [(DumpSerialOut (js (''<DISCONNECTED>'' @ [CHR 0x0A])), None)]"
    if "port s = Some p" "reader s = None \<or> c = None"
    using that
    by (auto simp: disconnectFromPort_def disconnect_close_def disconnect_begin_def exec_defs
        Let_def split: option.splits)
  from 1 2 3 4 show ?thesis by blast
qed

theorem disconnectFromPort_teardown_witness:
  "port (snd (connectToPort quiet_host initial_state)) = Some 4 \<and>
   fst (disconnectFromPort None (Some (ErrorObj (js ''The device has been lost.'')))
          (snd (connectToPort quiet_host initial_state))) = Returned \<and>
   port (snd (disconnectFromPort None (Some (ErrorObj (js ''The device has been lost.'')))
          (snd (connectToPort quiet_host initial_state)))) = None \<and>
   trace (snd (disconnectFromPort None (Some (ErrorObj (js ''The device has been lost.'')))
          (snd (connectToPort quiet_host initial_state)))) =
     [(RequestPort, None), (ConsoleLog, Some 4), (Open 4, Some 4),
      (DumpSerialOut (js (''<CONNECTED>'' @ [CHR 0x0A])), Some 4), (GetReader 4, Some 4),
      (Cancel 4, None), (Close 4, None),
      (ConsoleError (ErrorObj (js ''The device has been lost.'')), None),
      (DumpSerialOut (js ''<ERROR: The device has been lost.>''), None),
      (DumpSerialOut (js (''<DISCONNECTED>'' @ [CHR 0x0A])), None)]"
proof -
  let ?s = "snd (connectToPort quiet_host initial_state)"
  let ?k = "Some (ErrorObj (js ''The device has been lost.''))"
  note th = disconnectFromPort_teardown [where c = None and k = ?k and s = ?s and p = 4]
  have c: "reader ?s = None \<or> (None :: thrown option) = None" by simp
  from th have 1: "port (snd (disconnectFromPort None ?k ?s)) = None" by blast
  from th c have 2: "fst (disconnectFromPort None ?k ?s) = Returned" by blast
  note 3 = th [THEN conjunct2, THEN conjunct2, THEN conjunct2, rule_format,
      OF conjI [OF quiet_run(2) c]]
  have m: "js ''<ERROR: '' @ js ''The device has been lost.'' @ js ''>'' =
      js ''<ERROR: The device has been lost.>''"
    by (simp add: js_def)
  from 1 2 3 show ?thesis by (simp add: quiet_run m)
qed

section \<open>Properties of the read loop\<close>

lemma read_loop_no_port: "port s = None \<Longrightarrow> read_loop ss s = (True, s)"
  by (cases "(ss, s)" rule: read_loop.cases) simp_all

lemma connect_rest_no_port: "port s = None \<Longrightarrow> connect_rest ss k s = (Returned, s)"
  by (simp add: connect_rest_def read_loop_no_port connect_close_def)

lemma connect_rest_resume:
  assumes "port s = Some p" "readable s p"
  shows "connect_rest (Reads (ev # evs) r # rest) k s =
         connect_resume p ev evs r rest k (getReader p s)"
  using assms
  by (simp add: connect_rest_def connect_resume_def split: prod.splits bool.splits)

lemma resume_done:
  assumes "port s = None" "reader s = Some p"
  shows "connect_resume p (ReadResult None True) evs r rest k s =
     (Returned, s\<lparr>reader := None, readable := (readable s)(p := r),
                  trace := trace s @ [(ReleaseLock p, None)]\<rparr>)"
  using assms
  by (simp add: connect_resume_def run_session_def connect_rest_no_port exec_defs)

lemma resume_error:
  assumes "port s = None" "reader s = Some p"
  shows "connect_resume p (ReadThrows (ErrorObj m)) evs r rest k s =
     (Returned, s\<lparr>reader := None, readable := (readable s)(p := r),
        serialOut := map_option (\<lambda>t. t @ js ''<ERROR: '' @ m @ js (''>'' @ [CHR 0x0A])) (serialOut s),
        trace := trace s @
          [(ConsoleError (ErrorObj m), None),
           (DumpSerialOut (js ''<ERROR: '' @ m @ js (''>'' @ [CHR 0x0A])), None),
           (ReleaseLock p, None)]\<rparr>)"
  using assms
  by (simp add: connect_resume_def run_session_def connect_rest_no_port exec_defs)

text \<open>
  C4: a read is pending on the reader of \<open>p\<close> when \<open>disconnectFromPort\<close> is called. It
  sets \<open>port\<close> to undefined and cancels the reader, and the host settles the pending
  read with \<open>{value: undefined, done: true}\<close> (\<open>cancelled_read\<close>). Taken up there, \<open>connectToPort\<close> leaves
  both loops and returns, and all it still does is to release the reader: it writes
  nothing to the log view, closes nothing. This holds whether it is taken up while
  \<open>disconnectFromPort\<close> waits for \<open>cancel\<close> or after \<open>disconnectFromPort\<close> has run to its
  end. Should the host reject the pending read with an \<open>Error\<close> instead, the loop logs
  that error, releases the reader and ends as well. (\<open>connect_rest_resume\<close>:
  \<open>connect_resume\<close> is \<open>connectToPort\<close> from the read on.)
\<close>

theorem disconnect_ends_read_loop:
  assumes "reader s = Some p"
  shows "connect_resume p cancelled_read evs r rest k (disconnect_begin s) =
           (Returned,
            (disconnect_begin s)\<lparr>reader := None, readable := (readable s)(p := r),
               trace := trace s @ [(Cancel p, None), (ReleaseLock p, None)]\<rparr>) \<and>
         connect_resume p cancelled_read evs r rest k (snd (disconnectFromPort None k' s)) =
           (Returned,
            (snd (disconnectFromPort None k' s))\<lparr>reader := None,
               readable := (readable (snd (disconnectFromPort None k' s)))(p := r),
               trace := trace (snd (disconnectFromPort None k' s)) @ [(ReleaseLock p, None)]\<rparr>) \<and>
         connect_resume p (ReadThrows (ErrorObj m)) evs r rest k (disconnect_begin s) =
           (Returned,
            (disconnect_begin s)\<lparr>reader := None, readable := (readable s)(p := r),
               serialOut := map_option (\<lambda>t. t @ js ''<ERROR: '' @ m @ js (''>'' @ [CHR 0x0A]))
                              (serialOut s),
               trace := trace s @
                 [(Cancel p, None), (ConsoleError (ErrorObj m), None),
                  (DumpSerialOut (js ''<ERROR: '' @ m @ js (''>'' @ [CHR 0x0A])), None),
                  (ReleaseLock p, None)]\<rparr>)"
proof -
  have b: "port (disconnect_begin s) = None" "reader (disconnect_begin s) = Some p"
    "trace (disconnect_begin s) = trace s @ [(Cancel p, None)]"
    "readable (disconnect_begin s) = readable s"
    "serialOut (disconnect_begin s) = serialOut s"
    using assms by (simp_all add: disconnect_begin_def emit_def)
  have d: "port (snd (disconnectFromPort None k' s)) = None"
    "reader (snd (disconnectFromPort None k' s)) = Some p"
    using assms
    by (simp_all add: disconnectFromPort_def disconnect_close_def disconnect_begin_def exec_defs
        Let_def split: option.splits)
  from resume_done [OF b(1,2)] resume_done [OF d] resume_error [OF b(1,2)] b(3,4,5)
  show ?thesis by (simp add: cancelled_read_def)
qed

theorem disconnect_ends_read_loop_witness:
  "reader (snd (connectToPort quiet_host initial_state)) = Some 4 \<and>
   fst (connect_resume 4 cancelled_read [] True [] None
          (disconnect_begin (snd (connectToPort quiet_host initial_state)))) = Returned \<and>
   trace (snd (connect_resume 4 cancelled_read [] True [] None
          (disconnect_begin (snd (connectToPort quiet_host initial_state))))) =
     [(RequestPort, None), (ConsoleLog, Some 4), (Open 4, Some 4),
      (DumpSerialOut (js (''<CONNECTED>'' @ [CHR 0x0A])), Some 4), (GetReader 4, Some 4),
      (Cancel 4, None), (ReleaseLock 4, None)] \<and>
   serialOut (snd (connect_resume 4 cancelled_read [] True [] None
          (disconnect_begin (snd (connectToPort quiet_host initial_state))))) =
     Some (js (''<CONNECTED>'' @ [CHR 0x0A]))"
proof -
  let ?s = "snd (connectToPort quiet_host initial_state)"
  note th = disconnect_ends_read_loop [OF quiet_run(3), where evs = "[]" and r = True
      and rest = "[]" and k = None, THEN conjunct1]
  have "serialOut (disconnect_begin ?s) = serialOut ?s"
    by (simp add: disconnect_begin_def Let_def emit_def split: option.splits)
  then show ?thesis unfolding th by (simp add: quiet_run)
qed

lemma inner_loop_chunks:
  "inner_loop (map (\<lambda>v. ReadResult v False) vs @ evs) s = inner_loop evs (fold dump_chunk vs s)"
  by (induction vs arbitrary: s) simp_all

lemma fold_dump_chunk_fields:
  "port (fold dump_chunk vs s) = port s"
  "reader (fold dump_chunk vs s) = reader s"
  "connectButton_textContent (fold dump_chunk vs s) = connectButton_textContent s"
  "portSelector_disabled (fold dump_chunk vs s) = portSelector_disabled s"
  by (induction vs arbitrary: s; simp add: dump_chunk_def dumpSerialOut_def emit_def
      split: option.splits)+

lemma fold_dump_chunk_trace:
  "x \<in> set (trace (fold dump_chunk vs s)) \<Longrightarrow>
     x \<in> set (trace s) \<or> (\<exists>m. fst x = DumpSerialOut m)"
proof (induction vs arbitrary: s)
  case Nil
  then show ?case by simp
next
  case (Cons v vs)
  from Cons.IH [of "dump_chunk v s"] Cons.prems show ?case
    by (auto simp: dump_chunk_def dumpSerialOut_def emit_def split: option.splits)
qed

text \<open>
  C10: the loop is entered with a port set and readable. If, after any number of chunks,
  a read rejects with a value that is not an \<open>Error\<close>, or if \<open>getReader\<close> throws such a
  value, \<open>connectToPort\<close> never completes: after \<open>console.error\<close> it waits for a promise
  that nothing resolves. Where it stops, \<open>port\<close> is still set and the reader still held,
  the button and the dropdown are as they were, and since the loop was entered nothing
  was done but \<open>getReader\<close>, the logging of the chunks and \<open>console.error\<close>: no release
  of the reader, no \<open>close\<close>.
\<close>

theorem read_loop_hangs:
  assumes "port s = Some p" and "readable s p" and "\<not> instanceof_Error e"
  shows "connect_rest (Reads (map (\<lambda>v. ReadResult v False) vs @ [ReadThrows e]) r # rest) k s =
           (Pending, emit (ConsoleError e) (fold dump_chunk vs (getReader p s))) \<and>
         connect_rest (GetReaderThrows e r # rest) k s =
           (Pending, emit (ConsoleError e) (emit (GetReader p) s)) \<and>
         port (emit (ConsoleError e) (fold dump_chunk vs (getReader p s))) = Some p \<and>
         reader (emit (ConsoleError e) (fold dump_chunk vs (getReader p s))) = Some p \<and>
         connectButton_textContent (emit (ConsoleError e) (fold dump_chunk vs (getReader p s))) =
           connectButton_textContent s \<and>
         portSelector_disabled (emit (ConsoleError e) (fold dump_chunk vs (getReader p s))) =
           portSelector_disabled s \<and>
         (\<forall>x \<in> set (trace (emit (ConsoleError e) (fold dump_chunk vs (getReader p s)))).
            x \<in> set (trace s) \<or> fst x = GetReader p \<or> fst x = ConsoleError e \<or>
            (\<exists>m. fst x = DumpSerialOut m))"
proof -
  let ?s' = "emit (ConsoleError e) (fold dump_chunk vs (getReader p s))"
  from assms have 1: "connect_rest (Reads (map (\<lambda>v. ReadResult v False) vs @ [ReadThrows e]) r # rest) k s =
      (Pending, ?s')"
    by (simp add: connect_rest_def run_session_def inner_loop_chunks)
  from assms have 2: "connect_rest (GetReaderThrows e r # rest) k s =
      (Pending, emit (ConsoleError e) (emit (GetReader p) s))"
    by (simp add: connect_rest_def)
  from assms have 3: "port ?s' = Some p" "reader ?s' = Some p"
    "connectButton_textContent ?s' = connectButton_textContent s"
    "portSelector_disabled ?s' = portSelector_disabled s"
    by (simp_all add: emit_def fold_dump_chunk_fields getReader_def)
  have 4: "x \<in> set (trace s) \<or> fst x = GetReader p \<or> fst x = ConsoleError e \<or>
      (\<exists>m. fst x = DumpSerialOut m)" if "x \<in> set (trace ?s')" for x
  proof -
    from that have "x = (ConsoleError e, port (fold dump_chunk vs (getReader p s))) \<or>
        x \<in> set (trace (fold dump_chunk vs (getReader p s)))"
      by (auto simp: emit_def)
    then show ?thesis
      using fold_dump_chunk_trace [of x vs "getReader p s"]
      by (auto simp: getReader_def emit_def)
  qed
  from 1 2 3 4 show ?thesis by blast
qed

theorem read_loop_hangs_witness:
  "fst (connectToPort
          (quiet_host\<lparr>sessions :=
             [Reads [ReadResult (Some (js ''ok'')) False, ReadThrows (OtherValue (js ''oops''))] True]\<rparr>)
          initial_state) = Pending \<and>
   port (snd (connectToPort
          (quiet_host\<lparr>sessions :=
             [Reads [ReadResult (Some (js ''ok'')) False, ReadThrows (OtherValue (js ''oops''))] True]\<rparr>)
          initial_state)) = Some 4 \<and>
   reader (snd (connectToPort
          (quiet_host\<lparr>sessions :=
             [Reads [ReadResult (Some (js ''ok'')) False, ReadThrows (OtherValue (js ''oops''))] True]\<rparr>)
          initial_state)) = Some 4 \<and>
   trace (snd (connectToPort
          (quiet_host\<lparr>sessions :=
             [Reads [ReadResult (Some (js ''ok'')) False, ReadThrows (OtherValue (js ''oops''))] True]\<rparr>)
          initial_state)) =
     [(RequestPort, None), (ConsoleLog, Some 4), (Open 4, Some 4),
      (DumpSerialOut (js (''<CONNECTED>'' @ [CHR 0x0A])), Some 4), (GetReader 4, Some 4),
      (DumpSerialOut (js ''ok''), Some 4), (ConsoleError (OtherValue (js ''oops'')), Some 4)]"
proof -
  let ?h = "quiet_host\<lparr>sessions :=
      [Reads [ReadResult (Some (js ''ok'')) False, ReadThrows (OtherValue (js ''oops''))] True]\<rparr>"
  let ?s = "opened 4 (connecting 4 (snd (getSelectedPort (Inr 4) initial_state)))"
  have q: "requestPort_result ?h = Inr 4" "open_result ?h = None"
    "sessions ?h =
      [Reads (map (\<lambda>v. ReadResult v False) [Some (js ''ok'')] @ [ReadThrows (OtherValue (js ''oops''))])
         True]"
    by (simp_all add: quiet_host_def)
  have c: "connectToPort ?h initial_state = connect_rest (sessions ?h) (close_result ?h) ?s"
    by (simp add: connectToPort_def q(1,2) getSelectedPort_pick)
  have s: "port ?s = Some 4" "readable ?s 4"
    "trace ?s = [(RequestPort, None), (ConsoleLog, Some 4), (Open 4, Some 4),
      (DumpSerialOut (js (''<CONNECTED>'' @ [CHR 0x0A])), Some 4)]"
    unfolding getSelectedPort_pick by (simp_all add: exec_defs initial_state_def)
  have e: "\<not> instanceof_Error (OtherValue (js ''oops''))" by simp
  note th = read_loop_hangs [OF s(1,2) e, where vs = "[Some (js ''ok'')]" and r = True
      and rest = "[]" and k = "close_result ?h", THEN conjunct1]
  show ?thesis unfolding c q(3) th
    by (simp add: s exec_defs getSelectedPort_pick)
qed

end
